theory Spec2Isabelle
  imports Complex_Main
begin

section \<open>Data model of \<^verbatim>\<open>greenhouse_gases_module_Gracie.py\<close>\<close>

text \<open>
  The module holds one class, \<^verbatim>\<open>Data\<close>, over pandas tables. The tables are modelled
  column by column, as pandas stores them.

  \<^item> A float64 cell is a \<open>rat option\<close>: \<open>None\<close> is NaN (an empty cell of the file),
    \<open>Some q\<close> a number. Arithmetic is exact; the rounding of binary floating point is
    not part of the model.
  \<^item> A timestamp is the instant it denotes, in seconds since 1970-01-01 00:00:00.
  \<^item> A period is its ordinal: a daily period is the number of days since 1970-01-01,
    a weekly period (pandas frequency \<^verbatim>\<open>W-SUN\<close>, Monday to Sunday) is the number of
    weeks since the week of Monday 1969-12-29.
\<close>

datatype error =
    FileNotFoundError
  | KeyError
  | TypeError string
  | ValueError
  | IndexError

type_synonym num = "rat option"

datatype freq = W | D

datatype column =
    Float "num list"
  | Text "string list"
  | Periods freq "int list"

text \<open>
  The table read from the measurement file: its \<^verbatim>\<open>time\<close> column, and every other
  column in file order under its name. \<^verbatim>\<open>read_csv\<close> gives distinct names to the
  columns of a file.
\<close>

record table =
  time :: "int list"
  others :: "(string \<times> column) list"

text \<open>The table returned by \<^verbatim>\<open>groupby(...).mean()\<close>: a period index and float columns.\<close>

record gframe =
  gfreq :: freq
  index :: "int list"
  columns :: "(string \<times> num list) list"

text \<open>
  The attributes of a \<^verbatim>\<open>Data\<close> instance. \<^verbatim>\<open>data\<close> and \<^verbatim>\<open>data2\<close> do not exist
  until a plotting method stores them: \<open>None\<close>.
\<close>

record Data =
  site :: string
  species :: string
  path :: string
  df :: table
  scale :: string
  units :: string
  data :: "gframe option"
  data2 :: "gframe option"

subsection \<open>Construction\<close>

text \<open>
  \<^verbatim>\<open>species_info\<close> is the table of \<^verbatim>\<open>data/species_info.csv\<close> indexed by species: a map
  from a species to its \<^verbatim>\<open>scale\<close> and \<^verbatim>\<open>units\<close> cells, already rendered by \<^verbatim>\<open>str\<close>.
  The file system is a map from a path to the table \<^verbatim>\<open>read_csv\<close> parses there.
\<close>

type_synonym species_table = "string \<rightharpoonup> string \<times> string"

type_synonym files = "string \<rightharpoonup> table"

definition data_path :: "string \<Rightarrow> string \<Rightarrow> string" where
  "data_path st sp = ''data/'' @ st @ ''_'' @ sp @ ''.csv''"

definition read_csv :: "files \<Rightarrow> string \<Rightarrow> error + table" where
  "read_csv fs p = (case fs p of None \<Rightarrow> Inl FileNotFoundError | Some t \<Rightarrow> Inr t)"

definition Data_init :: "species_table \<Rightarrow> files \<Rightarrow> string \<Rightarrow> string \<Rightarrow> error + Data" where
  "Data_init species_info fs st sp =
     (case read_csv fs (data_path st sp) of
        Inl e \<Rightarrow> Inl e
      | Inr t \<Rightarrow>
          (case species_info sp of
             None \<Rightarrow> Inl KeyError
           | Some (sc, un) \<Rightarrow>
               Inr \<lparr>site = st, species = sp, path = data_path st sp, df = t,
                    scale = sc, units = un, data = None, data2 = None\<rparr>))"

subsection \<open>Calendar periods\<close>

text \<open>
  \<^verbatim>\<open>pd.DatetimeIndex(...).to_period("D")\<close> and \<^verbatim>\<open>.to_period("W")\<close>. 1970-01-01 was a
  Thursday, so the Monday-to-Sunday week of day \<open>d\<close> is \<open>(d + 3) div 7\<close>; \<open>div\<close> on
  \<open>int\<close> rounds down, also before 1970.
\<close>

definition day_of :: "int \<Rightarrow> int" where
  "day_of t = t div 86400"

definition week_of :: "int \<Rightarrow> int" where
  "week_of t = (day_of t + 3) div 7"

fun to_period :: "freq \<Rightarrow> int list \<Rightarrow> int list" where
  "to_period D ts = map day_of ts"
| "to_period W ts = map week_of ts"

text \<open>
  The \<^verbatim>\<open>.week\<close> field of a period index is the ISO 8601 week number of the last day
  of each period. The year of a day and the first day of a year follow the proleptic
  Gregorian calendar; an ISO week belongs to the year of its Thursday.
\<close>

definition year_of_day :: "int \<Rightarrow> int" where
  "year_of_day d =
     (let z = d + 719468;
          era = z div 146097;
          doe = z - era * 146097;
          yoe = (doe - doe div 1460 + doe div 36524 - doe div 146096) div 365;
          doy = doe - (365 * yoe + yoe div 4 - yoe div 100);
          mp = (5 * doy + 2) div 153
      in yoe + era * 400 + (if mp < 10 then 0 else 1))"

definition first_day_of_year :: "int \<Rightarrow> int" where
  "first_day_of_year y =
     (let y1 = y - 1;
          era = y1 div 400;
          yoe = y1 - era * 400
      in era * 146097 + (yoe * 365 + yoe div 4 - yoe div 100 + 306) - 719468)"

definition iso_week :: "int \<Rightarrow> int" where
  "iso_week d =
     (let th = d - (d + 3) mod 7 + 3
      in (th - first_day_of_year (year_of_day th)) div 7 + 1)"

fun period_end_day :: "freq \<Rightarrow> int \<Rightarrow> int" where
  "period_end_day D p = p"
| "period_end_day W p = 7 * p + 3"

definition period_week :: "freq \<Rightarrow> int \<Rightarrow> int" where
  "period_week f p = iso_week (period_end_day f p)"

subsection \<open>Columns\<close>

text \<open>\<^verbatim>\<open>frame[name] = column\<close>: an existing column is replaced in place, a new one is appended.\<close>

fun set_col :: "(string \<times> 'c) list \<Rightarrow> string \<Rightarrow> 'c \<Rightarrow> (string \<times> 'c) list" where
  "set_col [] n c = [(n, c)]"
| "set_col ((m, c') # cs) n c =
     (if m = n then (n, c) # cs else (m, c') # set_col cs n c)"

text \<open>The float64 columns of a table, the ones an aggregation keeps.\<close>

fun float_cols :: "(string \<times> column) list \<Rightarrow> (string \<times> num list) list" where
  "float_cols [] = []"
| "float_cols ((n, Float vs) # cs) = (n, vs) # float_cols cs"
| "float_cols ((n, Text _) # cs) = float_cols cs"
| "float_cols ((n, Periods _ _) # cs) = float_cols cs"

text \<open>The numbers of a float column, its NaN cells skipped.\<close>

fun observed :: "num list \<Rightarrow> rat list" where
  "observed [] = []"
| "observed (None # vs) = observed vs"
| "observed (Some y # vs) = y # observed vs"

text \<open>\<^verbatim>\<open>mean\<close> skips NaN and is NaN when nothing is left.\<close>

definition nanmean :: "num list \<Rightarrow> num" where
  "nanmean vs =
     (let ys = observed vs
      in if ys = [] then None else Some (sum_list ys / of_nat (length ys)))"

subsection \<open>Grouping\<close>

text \<open>The cells of a column in the rows whose key is \<open>k\<close>.\<close>

definition group_rows :: "int \<Rightarrow> int list \<Rightarrow> 'a list \<Rightarrow> 'a list" where
  "group_rows k keys vs = map snd (filter (\<lambda>p. fst p = k) (zip keys vs))"

text \<open>
  \<^verbatim>\<open>df.groupby([key]).mean()\<close>, as the pandas the module was written for computes it
  (releases before 2.0): one row per distinct key, in ascending order of key, and in each
  float column the mean of the group. The \<^verbatim>\<open>time\<close> column (text), other text columns
  and period columns have no mean and are left out of the result.
\<close>

definition groupby_mean :: "freq \<Rightarrow> int list \<Rightarrow> (string \<times> column) list \<Rightarrow> gframe" where
  "groupby_mean f keys cols =
     (let ks = sort (remdups keys)
      in \<lparr>gfreq = f, index = ks,
          columns = map (\<lambda>(n, vs). (n, map (\<lambda>k. nanmean (group_rows k keys vs)) ks))
                        (float_cols cols)\<rparr>)"

definition rename_col :: "string \<Rightarrow> string \<Rightarrow> (string \<times> 'c) list \<Rightarrow> (string \<times> 'c) list" where
  "rename_col old new cs = map (\<lambda>(n, c). (if n = old then new else n, c)) cs"

subsection \<open>\<^verbatim>\<open>glimpse\<close>\<close>

text \<open>
  \<^verbatim>\<open>quantile\<close> with pandas' default linear interpolation, on a non-empty list of
  numbers: position \<open>q * (n - 1)\<close> in the sorted list, interpolated between its two
  neighbours when it is not a whole number.
\<close>

definition quantile :: "rat \<Rightarrow> rat list \<Rightarrow> rat" where
  "quantile q xs =
     (let s = sort xs;
          pos = q * of_nat (length xs - 1);
          i = nat \<lfloor>pos\<rfloor>;
          fr = pos - of_int \<lfloor>pos\<rfloor>
      in if fr = 0 then s ! i else s ! i + (s ! (i + 1) - s ! i) * fr)"

text \<open>
  The rows of \<^verbatim>\<open>describe()\<close> for one float column. \<^verbatim>\<open>count\<close> is the number of cells
  that are not NaN. The \<^verbatim>\<open>std\<close> row is a square root and is left out of the model.
  \<^verbatim>\<open>glimpse\<close> summarises the float columns; a table without any, where pandas turns to
  the text columns, is outside the model.
\<close>

record summary =
  count :: nat
  mean :: num
  minimum :: num
  q25 :: num
  q50 :: num
  q75 :: num
  maximum :: num

definition stat :: "(rat list \<Rightarrow> rat) \<Rightarrow> rat list \<Rightarrow> num" where
  "stat f ys = (if ys = [] then None else Some (f ys))"

definition describe_col :: "num list \<Rightarrow> summary" where
  "describe_col vs =
     (let ys = observed vs
      in \<lparr>count = length ys, mean = nanmean vs,
          minimum = stat (\<lambda>ys. hd (sort ys)) ys,
          q25 = stat (quantile (1 / 4)) ys,
          q50 = stat (quantile (1 / 2)) ys,
          q75 = stat (quantile (3 / 4)) ys,
          maximum = stat (\<lambda>ys. last (sort ys)) ys\<rparr>)"

definition glimpse :: "Data \<Rightarrow> (string \<times> summary) list" where
  "glimpse self = map (\<lambda>(n, vs). (n, describe_col vs)) (float_cols (others (df self)))"

subsection \<open>\<^verbatim>\<open>weekly_ave\<close>\<close>

definition weekly_ave :: "Data \<Rightarrow> Data \<times> gframe" where
  "weekly_ave self =
     (let wk = to_period W (time (df self));
          self' = self\<lparr>df := (df self)\<lparr>others := set_col (others (df self)) ''week'' (Periods W wk)\<rparr>\<rparr>;
          df_ave = groupby_mean W wk (others (df self'))
      in (self', df_ave\<lparr>columns :=
                   rename_col ''mf'' ''Weekly average mole fraction'' (columns df_ave)\<rparr>))"

subsection \<open>\<^verbatim>\<open>baseline\<close>\<close>

text \<open>
  \<^verbatim>\<open>rolling(w).quantile(q)\<close> on one column: row \<open>i\<close> looks at rows \<open>i - w + 1\<close> to \<open>i\<close>.
  The least number of observations is the window size, so the result is NaN unless the
  window holds \<open>w\<close> cells that are all numbers.
\<close>

definition window :: "nat \<Rightarrow> nat \<Rightarrow> 'a list \<Rightarrow> 'a list" where
  "window w i vs = drop (Suc i - w) (take (Suc i) vs)"

definition rolling_quantile :: "nat \<Rightarrow> rat \<Rightarrow> num list \<Rightarrow> num list" where
  "rolling_quantile w q vs =
     map (\<lambda>i. let obs = observed (window w i vs)
              in if length obs < w then None else Some (quantile q obs))
         [0..<length vs]"

text \<open>\<^verbatim>\<open>dropna()\<close> keeps the rows with no NaN in any column.\<close>

definition complete_row :: "gframe \<Rightarrow> nat \<Rightarrow> bool" where
  "complete_row g i = list_all (\<lambda>(n, vs). vs ! i \<noteq> None) (columns g)"

definition dropna :: "gframe \<Rightarrow> gframe" where
  "dropna g =
     (let keep = filter (complete_row g) [0..<length (index g)]
      in g\<lparr>index := map (\<lambda>i. index g ! i) keep,
           columns := map (\<lambda>(n, vs). (n, map (\<lambda>i. vs ! i) keep)) (columns g)\<rparr>)"

text \<open>
  \<^verbatim>\<open>df_ave["Baseline"] = df_ave.rolling(14).quantile(.05)\<close> assigns a table to one
  column: pandas takes the values of the table's only column and raises \<^verbatim>\<open>ValueError\<close>
  when the table has no column or more than one. The \<^verbatim>\<open>day\<close> column is stored before
  that, so the instance is returned updated in either case.
\<close>

definition baseline :: "Data \<Rightarrow> Data \<times> (error + gframe)" where
  "baseline self =
     (let dy = to_period D (time (df self));
          self' = self\<lparr>df := (df self)\<lparr>others := set_col (others (df self)) ''day'' (Periods D dy)\<rparr>\<rparr>;
          df_ave = groupby_mean D dy (others (df self'))
      in (self',
          case columns df_ave of
            [(n, vs)] \<Rightarrow>
              Inr (dropna (df_ave\<lparr>columns :=
                     set_col (columns df_ave) ''Baseline'' (rolling_quantile 14 (1 / 20) vs)\<rparr>))
          | _ \<Rightarrow> Inl ValueError))"

text \<open>
  The table \<^verbatim>\<open>df_ave\<close> of \<^verbatim>\<open>baseline\<close> as \<^verbatim>\<open>groupby(["day"]).mean()\<close> returns it,
  before the \<^verbatim>\<open>Baseline\<close> column is assigned: the day-grouped series.
\<close>

definition day_grouped :: "Data \<Rightarrow> gframe" where
  "day_grouped self =
     (let dy = to_period D (time (df self))
      in groupby_mean D dy (set_col (others (df self)) ''day'' (Periods D dy)))"

subsection \<open>Plotting\<close>

text \<open>
  What a plotting method leaves behind: the exception it raised if any, the lines drawn
  on the axes up to that point, and whether \<^verbatim>\<open>plt.show()\<close> was reached. Titles, axis
  labels, ticks and the grid are modelled only where computing them raises. The text
  labels of \<^verbatim>\<open>plot\<close>'s x axis are kept as the period ordinals they render.
\<close>

record line =
  label :: string
  xdata :: "int list"
  ydata :: "num list"
  color :: string

record plotted =
  raised :: "error option"
  lines :: "line list"
  shown :: bool

text \<open>Python's \<^verbatim>\<open>p in s\<close> on strings.\<close>

fun contains :: "string \<Rightarrow> string \<Rightarrow> bool" where
  "contains p [] = (p = [])"
| "contains p (c # s) = (take (length p) (c # s) = p \<or> contains p s)"

definition plot :: "Data \<Rightarrow> gframe \<Rightarrow> Data \<times> plotted" where
  "plot self dat =
     (let self' = self\<lparr>data := Some dat\<rparr>
      in if columns dat = [] then (self', \<lparr>raised = Some IndexError, lines = [], shown = False\<rparr>)
         else
           let title = fst (last (columns dat));
               l1 = \<lparr>label = species self @ '', '' @ site self, xdata = index dat,
                     ydata = snd (last (columns dat)), color = ''black''\<rparr>
           in if contains ''Baseline'' title \<and> length (columns dat) < 2
              then (self', \<lparr>raised = Some IndexError, lines = [l1], shown = False\<rparr>)
              else
                let ls = l1 # (if contains ''Baseline'' title
                               then [\<lparr>label = ''Normal '' @ species self @ '' data'',
                                      xdata = index dat,
                                      ydata = snd (columns dat ! (length (columns dat) - 2)),
                                      color = ''seagreen''\<rparr>]
                               else [])
                in if index dat = []
                   then (self', \<lparr>raised = Some IndexError, lines = ls, shown = False\<rparr>)
                   else (self', \<lparr>raised = None, lines = ls, shown = True\<rparr>))"

text \<open>
  \<^verbatim>\<open>plot_compare\<close> writes to two instances, which may be one and the same object. The
  instances live in a store and the method takes the references of \<^verbatim>\<open>self\<close> and
  \<^verbatim>\<open>other\<close>; it returns the store as it leaves it. The two checks come first;
  \<^verbatim>\<open>columns[-1]\<close> raises on a table without columns, before the figure exists, and
  \<^verbatim>\<open>index.year[0]\<close> raises on an empty first table, after both lines are drawn.
\<close>

type_synonym ref = nat

type_synonym store = "ref \<Rightarrow> Data"

definition plot_compare :: "store \<Rightarrow> ref \<Rightarrow> gframe \<Rightarrow> ref \<Rightarrow> gframe \<Rightarrow> store \<times> plotted" where
  "plot_compare h self dat other dat2 =
     (if units (h self) \<noteq> units (h other)
      then (h, \<lparr>raised = Some (TypeError ''Units must match''), lines = [], shown = False\<rparr>)
      else if scale (h self) \<noteq> scale (h other)
      then (h, \<lparr>raised = Some (TypeError ''Scale must match''), lines = [], shown = False\<rparr>)
      else
        let h1 = h(self := (h self)\<lparr>data := Some dat\<rparr>);
            h2 = h1(other := (h1 other)\<lparr>data2 := Some dat2\<rparr>);
            sd = the (data (h2 self));
            od = the (data2 (h2 other));
            x = butlast (map (period_week (gfreq sd)) (index sd));
            x2 = butlast (map (period_week (gfreq od)) (index od))
        in if columns sd = [] \<or> columns od = []
           then (h2, \<lparr>raised = Some IndexError, lines = [], shown = False\<rparr>)
           else
             let y = butlast (snd (last (columns sd)));
                 y2 = butlast (snd (last (columns od)));
                 ls = [\<lparr>label = species (h2 self) @ '', '' @ site (h2 self), xdata = x,
                        ydata = y, color = ''seagreen''\<rparr>,
                       \<lparr>label = species (h2 other) @ '', '' @ site (h2 other), xdata = x2,
                        ydata = y2, color = ''plum''\<rparr>]
             in if index sd = []
                then (h2, \<lparr>raised = Some IndexError, lines = ls, shown = False\<rparr>)
                else (h2, \<lparr>raised = None, lines = ls, shown = True\<rparr>))"

subsection \<open>The specification's words\<close>

text \<open>
  The definitions of this subsection are not taken from the code. They say in the
  specification's terms what the aggregations are compared with. Calendar week \<open>k\<close>
  runs from a Monday 00:00 to the next; week 0 opens on Monday 1969-12-29, that is
  259200 seconds before 1970-01-01. The values of a week are the \<^verbatim>\<open>mf\<close> cells of the rows
  whose timestamp falls in it, and their arithmetic mean is their sum divided by their
  number.
\<close>

definition spec_week_start :: "int \<Rightarrow> int" where
  "spec_week_start k = 604800 * k - 259200"

definition spec_in_week :: "int \<Rightarrow> int \<Rightarrow> bool" where
  "spec_in_week k t \<longleftrightarrow> spec_week_start k \<le> t \<and> t < spec_week_start (k + 1)"

definition spec_week_values :: "int \<Rightarrow> int list \<Rightarrow> num list \<Rightarrow> rat list" where
  "spec_week_values k ts vs =
     map (\<lambda>p. the (snd p)) (filter (\<lambda>p. spec_in_week k (fst p)) (zip ts vs))"

definition spec_mean :: "rat list \<Rightarrow> rat" where
  "spec_mean l = sum_list l / of_nat (length l)"

text \<open>
  Row \<open>i\<close> of the day-grouped series has a full window when it has 13 rows before it
  and the 14 daily means that end with its own are all defined.
\<close>

definition spec_full_window :: "num list \<Rightarrow> nat \<Rightarrow> bool" where
  "spec_full_window ms i \<longleftrightarrow> 13 \<le> i \<and> list_all (\<lambda>j. ms ! j \<noteq> None) [i - 13..<Suc i]"

subsection \<open>Example inputs\<close>

text \<open>Small tables and instances on which the properties below are evaluated.\<close>

definition ex_table :: table where
  "ex_table = \<lparr>time = [0, 3600], others = [(''mf'', Float [Some 1, None])]\<rparr>"

definition ex_data :: "string \<Rightarrow> string \<Rightarrow> string \<Rightarrow> string \<Rightarrow> Data" where
  "ex_data st sp sc un =
     \<lparr>site = st, species = sp, path = data_path st sp, df = ex_table,
      scale = sc, units = un, data = None, data2 = None\<rparr>"

definition ex_store :: "Data \<Rightarrow> Data \<Rightarrow> store" where
  "ex_store a b = (\<lambda>r. if r = 0 then a else b)"

definition ex_weekly :: gframe where
  "ex_weekly = \<lparr>gfreq = W, index = [52, 53, 54],
                columns = [(''Weekly average mole fraction'', [Some 3, Some 4, Some 5])]\<rparr>"

definition ex_full_table :: table where
  "ex_full_table = \<lparr>time = [0, 3600], others = [(''mf'', Float [Some 1, Some 3])]\<rparr>"

definition ex_wide_table :: table where
  "ex_wide_table =
     \<lparr>time = [0, 3600],
      others = [(''mf'', Float [Some 1, Some 3]), (''temp'', Float [Some 10, Some 20])]\<rparr>"

definition ex_doubling :: table where
  "ex_doubling =
     \<lparr>time = [345600, 432000, 518400, 604800, 691200, 777600, 864000,
              950400, 1036800, 1123200, 1209600, 1296000, 1382400, 1468800],
      others = [(''mf'', Float [Some 1, Some 2, Some 3, Some 4, Some 5, Some 6, Some 7,
                               Some 2, Some 4, Some 6, Some 8, Some 10, Some 12, Some 14])]\<rparr>"



definition ex_gap30 :: table where
  "ex_gap30 =
     \<lparr>time = [0, 86400, 172800, 259200, 345600, 432000, 518400, 604800, 691200, 777600, 864000, 950400, 1036800, 1123200, 1209600, 1296000, 1382400, 1468800, 1555200, 1641600, 1728000, 1814400, 1900800, 1987200, 2073600, 2160000, 2246400, 2332800, 2419200, 2505600],
      others = [(''mf'', Float [Some 0, Some 1, Some 2, Some 3, Some 4, Some 5, Some 6, Some 7, Some 8, Some 9, Some 10, Some 11, Some 12, Some 13, None, Some 15, Some 16, Some 17, Some 18, Some 19, Some 20, Some 21, Some 22, Some 23, Some 24, Some 25, Some 26, Some 27, Some 28, Some 29])]\<rparr>"

definition ex_gap30_result :: gframe where
  "ex_gap30_result =
     \<lparr>gfreq = D, index = [13, 28, 29],
      columns = [(''mf'', [Some 13, Some 28, Some 29]),
                 (''Baseline'', [Some (13 / 20), Some (313 / 20), Some (333 / 20)])]\<rparr>"

section \<open>Auxiliary facts\<close>

lemma map_of_set_col: "map_of (set_col cs n c) m = (if m = n then Some c else map_of cs m)"
  by (induction cs) auto

lemma set_col_append: "n \<notin> fst ` set cs \<Longrightarrow> set_col cs n c = cs @ [(n, c)]"
  by (induction cs) auto

lemma float_cols_mem: "(n, vs) \<in> set (float_cols cs) \<longleftrightarrow> (n, Float vs) \<in> set cs"
  by (induction cs rule: float_cols.induct) auto

lemma length_observed: "length (observed vs) = length (filter (\<lambda>v. v \<noteq> None) vs)"
  by (induction vs rule: observed.induct) auto

lemma ex_weekly_weeks: "period_week W 52 = 53" "period_week W 53 = 1" "period_week W 54 = 2"
  by code_simp+

lemma filter_set_col:
  "filter (\<lambda>c. fst c \<noteq> n) (set_col cs n c) = filter (\<lambda>c. fst c \<noteq> n) cs"
  by (induction cs) auto

lemma set_col_keeps: "(m, c') \<in> set cs \<Longrightarrow> m \<noteq> n \<Longrightarrow> (m, c') \<in> set (set_col cs n c)"
  by (induction cs) auto

lemma observed_all: "None \<notin> set vs \<Longrightarrow> observed vs = map the vs"
  by (induction vs rule: observed.induct) auto

lemma set_group_rows: "set (group_rows k keys vs) \<subseteq> set vs"
  by (auto simp: group_rows_def dest: set_zip_rightD)

lemma group_rows_nonempty:
  assumes "k \<in> set keys" and "length keys = length vs"
  shows "group_rows k keys vs \<noteq> []"
proof -
  from assms(1) obtain i where i: "i < length keys" "keys ! i = k"
    by (auto simp: in_set_conv_nth)
  with assms(2) have "(k, vs ! i) \<in> set (zip keys vs)"
    by (auto simp: set_zip)
  then have "vs ! i \<in> set (group_rows k keys vs)"
    by (force simp: group_rows_def)
  then show ?thesis by auto
qed

lemma nanmean_all:
  "None \<notin> set vs \<Longrightarrow> vs \<noteq> [] \<Longrightarrow>
     nanmean vs = Some (sum_list (map the vs) / of_nat (length vs))"
  by (simp add: nanmean_def observed_all)


lemma weekly_column:
  assumes "(''mf'', Float vs) \<in> set (others (df d))"
  shows "(''Weekly average mole fraction'',
          map (\<lambda>k. nanmean (group_rows k (map week_of (time (df d))) vs))
              (sort (remdups (map week_of (time (df d))))))
         \<in> set (columns (snd (weekly_ave d)))"
proof -
  let ?wk = "map week_of (time (df d))"
  let ?ks = "sort (remdups ?wk)"
  let ?f = "\<lambda>(n, vs). (n, map (\<lambda>k. nanmean (group_rows k ?wk vs)) ?ks)"
  let ?l = "float_cols (set_col (others (df d)) ''week'' (Periods W ?wk))"
  have "(''mf'', vs) \<in> set ?l"
    using assms by (simp add: float_cols_mem set_col_keeps)
  then have "?f (''mf'', vs) \<in> set (map ?f ?l)"
    unfolding set_map by (rule imageI)
  then have "(\<lambda>(m, c). (if m = ''mf'' then ''Weekly average mole fraction'' else m, c))
        (?f (''mf'', vs))
      \<in> set (rename_col ''mf'' ''Weekly average mole fraction'' (map ?f ?l))"
    unfolding rename_col_def set_map by (rule imageI)
  then show ?thesis
    by (simp add: weekly_ave_def groupby_mean_def Let_def)
qed

lemma weekly_index: "index (snd (weekly_ave d)) = sort (remdups (map week_of (time (df d))))"
  by (simp add: weekly_ave_def groupby_mean_def Let_def)

lemma sort_remdups_pair:
  fixes w :: int
  assumes "set ks = {w, w + 1}"
  shows "sort (remdups ks) = [w, w + 1]"
proof -
  have "sort (remdups ks) = sorted_list_of_set (set ks)"
    by (simp add: sorted_list_of_set_sort_remdups)
  also have "\<dots> = [w, w + 1]"
    by (simp add: assms)
  finally show ?thesis .
qed


lemma observed_short: "None \<in> set vs \<Longrightarrow> length (observed vs) < length vs"
  unfolding length_observed by (rule length_filter_less) simp_all

lemma length_window: "length (window w i vs) \<le> w"
  by (simp add: window_def)

lemma window_last:
  assumes "0 < w" and "i < length vs"
  shows "vs ! i \<in> set (window w i vs)"
proof -
  let ?n = "Suc i - w"
  have "drop ?n (take (Suc i) vs) ! (i - ?n) = vs ! i"
    using assms by simp
  moreover have "i - ?n < length (drop ?n (take (Suc i) vs))"
    using assms by simp
  ultimately show ?thesis
    unfolding window_def by (metis nth_mem)
qed


lemma rolling_nth:
  "i < length vs \<Longrightarrow>
     rolling_quantile w q vs ! i =
       (if length (observed (window w i vs)) < w then None
        else Some (quantile q (observed (window w i vs))))"
  by (simp add: rolling_quantile_def Let_def)

lemma rolling_none:
  assumes "0 < w" and "i < length vs" and "vs ! i = None"
  shows "rolling_quantile w q vs ! i = None"
proof -
  have "None \<in> set (window w i vs)"
    using window_last [OF assms(1,2)] assms(3) by simp
  then have "length (observed (window w i vs)) < length (window w i vs)"
    by (rule observed_short)
  with length_window [of w i vs] have "length (observed (window w i vs)) < w"
    by simp
  with assms(2) show ?thesis
    by (simp add: rolling_nth)
qed

lemma window_full:
  assumes "13 \<le> i" and "i < length ms"
  shows "window 14 i ms = take 14 (drop (i - 13) ms)"
proof -
  have "Suc i - 14 = i - 13" "Suc i - (i - 13) = 14"
    using assms by simp_all
  then show ?thesis
    by (simp add: window_def drop_take)
qed





lemma baseline_day_grouped:
  "snd (baseline d) =
     (case columns (day_grouped d) of
        [(n, vs)] \<Rightarrow>
          Inr (dropna ((day_grouped d)\<lparr>columns :=
                 set_col (columns (day_grouped d)) ''Baseline'' (rolling_quantile 14 (1 / 20) vs)\<rparr>))
      | _ \<Rightarrow> Inl ValueError)"
  by (simp add: baseline_def day_grouped_def Let_def split: list.splits prod.splits)

lemma day_grouped_index:
  "index (day_grouped d) = sort (remdups (map day_of (time (df d))))"
  by (simp add: day_grouped_def groupby_mean_def Let_def)


lemma day_grouped_col_length:
  "(n, c) \<in> set (columns (day_grouped d)) \<Longrightarrow> length c = length (index (day_grouped d))"
  by (auto simp: day_grouped_def groupby_mean_def Let_def)

lemma dropna_index:
  "index (dropna g) = map ((!) (index g)) (filter (complete_row g) [0..<length (index g)])"
  by (simp add: dropna_def Let_def)

lemma dropna_columns:
  "columns (dropna g) =
     map (\<lambda>(n, vs). (n, map ((!) vs) (filter (complete_row g) [0..<length (index g)])))
         (columns g)"
  by (simp add: dropna_def Let_def)


lemma dropna_complete:
  assumes "(n, c) \<in> set (columns (dropna g))"
  shows "None \<notin> set c"
proof
  let ?keep = "filter (complete_row g) [0..<length (index g)]"
  assume "None \<in> set c"
  from assms obtain vs where vs: "(n, vs) \<in> set (columns g)" and c: "c = map ((!) vs) ?keep"
    by (auto simp: dropna_columns)
  from \<open>None \<in> set c\<close> c obtain i where i: "complete_row g i" "vs ! i = None"
    by auto
  from i(1) vs have "vs ! i \<noteq> None"
    by (auto simp: complete_row_def list_all_iff)
  with i(2) show False by simp
qed

lemma dropna_row_absent:
  assumes "distinct (index g)" and "i < length (index g)" and "\<not> complete_row g i"
  shows "index g ! i \<notin> set (index (dropna g))"
proof
  assume "index g ! i \<in> set (index (dropna g))"
  then obtain j where j: "j < length (index g)" "complete_row g j" "index g ! j = index g ! i"
    by (auto simp: dropna_index)
  with assms(1,2) have "j = i"
    by (simp add: nth_eq_iff_index_eq)
  with j(2) assms(3) show False by simp
qed









lemma div_eq_iff_range:
  fixes a k n :: int
  assumes "0 < n"
  shows "a div n = k \<longleftrightarrow> n * k \<le> a \<and> a < n * (k + 1)"
proof
  assume "a div n = k"
  moreover have "a = n * (a div n) + a mod n"
    by simp
  moreover have "0 \<le> a mod n" "a mod n < n"
    using assms by simp_all
  ultimately show "n * k \<le> a \<and> a < n * (k + 1)"
    by (metis add.commute add_le_cancel_left add_less_cancel_left distrib_left
        le_add_same_cancel1 mult.right_neutral)
next
  assume r: "n * k \<le> a \<and> a < n * (k + 1)"
  have "a = n * k + (a - n * k)"
    by simp
  moreover from r have "0 \<le> a - n * k" "a - n * k < n"
    by (simp_all add: distrib_left)
  ultimately show "a div n = k"
    using assms by (metis int_div_pos_eq)
qed

lemma week_of_eq: "week_of t = (t + 259200) div 604800"
proof -
  have "t div 86400 + 3 = (t + 86400 * 3) div 86400"
    by simp
  then have "week_of t = ((t + 259200) div 86400) div 7"
    by (simp add: week_of_def day_of_def)
  also have "\<dots> = (t + 259200) div (86400 * 7)"
    by (simp add: zdiv_zmult2_eq)
  finally show ?thesis by simp
qed

lemma week_of_iff: "week_of t = k \<longleftrightarrow> spec_in_week k t"
proof -
  have "week_of t = k \<longleftrightarrow> 604800 * k \<le> t + 259200 \<and> t + 259200 < 604800 * (k + 1)"
    unfolding week_of_eq by (rule div_eq_iff_range) simp
  then show ?thesis
    by (auto simp: spec_in_week_def spec_week_start_def)
qed

lemma group_rows_week:
  "group_rows k (map week_of ts) vs = map snd (filter (\<lambda>p. spec_in_week k (fst p)) (zip ts vs))"
proof -
  have "zip (map week_of ts) vs = map (\<lambda>p. (week_of (fst p), snd p)) (zip ts vs)"
    by (simp add: zip_map1 case_prod_beta)
  then show ?thesis
    by (simp add: group_rows_def filter_map comp_def week_of_iff)
qed

lemma week_values_group:
  "spec_week_values k ts vs = map the (group_rows k (map week_of ts) vs)"
  by (simp add: group_rows_week spec_week_values_def)

lemma weekly_mean_spec:
  assumes "None \<notin> set vs" and "length vs = length ts" and "k \<in> week_of ` set ts"
  shows "nanmean (group_rows k (map week_of ts) vs) = Some (spec_mean (spec_week_values k ts vs))"
    and "spec_week_values k ts vs \<noteq> []"
proof -
  let ?g = "group_rows k (map week_of ts) vs"
  have ne: "?g \<noteq> []"
    using assms by (intro group_rows_nonempty) simp_all
  moreover from assms(1) set_group_rows [of k "map week_of ts" vs] have "None \<notin> set ?g"
    by auto
  ultimately show "nanmean ?g = Some (spec_mean (spec_week_values k ts vs))"
    by (simp add: nanmean_all spec_mean_def week_values_group)
  from ne show "spec_week_values k ts vs \<noteq> []"
    by (simp add: week_values_group)
qed

lemma ex_doubling_weekly:
  "snd (weekly_ave ((ex_data ''MHD'' ''ch4'' ''s'' ''ppb'')\<lparr>df := ex_doubling\<rparr>)) =
     \<lparr>gfreq = W, index = [1, 2],
      columns = [(''Weekly average mole fraction'', [Some 4, Some 8])]\<rparr>"
  by code_simp

lemma ex_doubling_values:
  "spec_week_values 1 (time ex_doubling) [Some 1, Some 2, Some 3, Some 4, Some 5, Some 6, Some 7,
       Some 2, Some 4, Some 6, Some 8, Some 10, Some 12, Some 14] = [1, 2, 3, 4, 5, 6, 7]"
  "spec_week_values 2 (time ex_doubling) [Some 1, Some 2, Some 3, Some 4, Some 5, Some 6, Some 7,
       Some 2, Some 4, Some 6, Some 8, Some 10, Some 12, Some 14] = [2, 4, 6, 8, 10, 12, 14]"
  by (simp_all add: spec_week_values_def spec_in_week_def spec_week_start_def ex_doubling_def)

lemma spec_mean_double: "spec_mean (map (\<lambda>x. 2 * x) l) = 2 * spec_mean l"
  by (simp add: spec_mean_def sum_list_const_mult)

lemma window_none_iff:
  assumes "13 \<le> i" and "i < length ms"
  shows "None \<in> set (take 14 (drop (i - 13) ms))
     \<longleftrightarrow> \<not> list_all (\<lambda>j. ms ! j \<noteq> None) [i - 13..<Suc i]"
proof
  let ?w = "take 14 (drop (i - 13) ms)"
  have len: "length ?w = 14"
    using assms by simp
  have nth: "?w ! k = ms ! (i - 13 + k)" if "k < 14" for k
    using that assms by simp
  {
    assume "None \<in> set ?w"
    then obtain k where k: "k < 14" "?w ! k = None"
      unfolding in_set_conv_nth len by auto
    then have "ms ! (i - 13 + k) = None" "i - 13 \<le> i - 13 + k" "i - 13 + k < Suc i"
      using nth assms by simp_all
    then show "\<not> list_all (\<lambda>j. ms ! j \<noteq> None) [i - 13..<Suc i]"
      unfolding list_all_iff by (metis atLeastLessThan_iff set_upt)
  }
  {
    assume "\<not> list_all (\<lambda>j. ms ! j \<noteq> None) [i - 13..<Suc i]"
    then have "\<exists>j\<in>set [i - 13..<Suc i]. ms ! j = None"
      unfolding list_all_iff by metis
    then obtain j where "j \<in> set [i - 13..<Suc i]" and none: "ms ! j = None"
      by (rule bexE)
    then have j: "i - 13 \<le> j" "j < Suc i" "ms ! j = None"
      by (simp_all del: upt_Suc)
    then have "j - (i - 13) < 14" "i - 13 + (j - (i - 13)) = j"
      using assms by simp_all
    with nth [of "j - (i - 13)"] j(3) have "?w ! (j - (i - 13)) = None" "j - (i - 13) < length ?w"
      using len by simp_all
    then show "None \<in> set ?w"
      by (metis nth_mem)
  }
qed

lemma rolling_none_iff:
  assumes "i < length ms"
  shows "rolling_quantile 14 q ms ! i = None \<longleftrightarrow> \<not> spec_full_window ms i"
proof (cases "i < 13")
  case True
  have "length (observed (window 14 i ms)) \<le> length (window 14 i ms)"
    by (simp add: length_observed)
  also have "\<dots> < 14"
    using True assms by (simp add: window_def)
  finally show ?thesis
    using True assms by (simp add: rolling_nth spec_full_window_def)
next
  case False
  then have i: "13 \<le> i" by simp
  let ?w = "take 14 (drop (i - 13) ms)"
  have w: "window 14 i ms = ?w"
    using i assms by (rule window_full)
  have len: "length ?w = 14"
    using i assms by simp
  have "length (observed ?w) < 14 \<longleftrightarrow> None \<in> set ?w"
  proof
    assume "None \<in> set ?w"
    from observed_short [OF this] len show "length (observed ?w) < 14" by simp
  next
    assume short: "length (observed ?w) < 14"
    show "None \<in> set ?w"
    proof (rule ccontr)
      assume "None \<notin> set ?w"
      then have "observed ?w = map the ?w" by (rule observed_all)
      with len short show False by simp
    qed
  qed
  also have "\<dots> \<longleftrightarrow> \<not> list_all (\<lambda>j. ms ! j \<noteq> None) [i - 13..<Suc i]"
    using i assms by (rule window_none_iff)
  finally show ?thesis
    using i assms by (simp add: rolling_nth w spec_full_window_def)
qed

lemma full_window_defined: "spec_full_window ms i \<Longrightarrow> ms ! i \<noteq> None"
  by (auto simp: spec_full_window_def list_all_iff)

lemma nth_mem_distinct:
  assumes "distinct l" and "i < length l" and "set ks \<subseteq> {0..<length l}"
  shows "l ! i \<in> set (map ((!) l) ks) \<longleftrightarrow> i \<in> set ks"
proof
  assume "l ! i \<in> set (map ((!) l) ks)"
  then obtain j where j: "j \<in> set ks" "l ! j = l ! i" by auto
  with assms(3) have "j < length l" by auto
  with assms(1,2) j(2) have "j = i" by (simp add: nth_eq_iff_index_eq)
  with j(1) show "i \<in> set ks" by simp
qed auto

lemma ex_gap30_baseline:
  "snd (baseline ((ex_data ''MHD'' ''ch4'' ''s'' ''ppb'')\<lparr>df := ex_gap30\<rparr>)) = Inr ex_gap30_result"
  by code_simp

section \<open>Construction\<close>

text \<open>
  C10, as the specification states it, fails: when the species is absent from the
  species table and the measurement file is absent too, \<^verbatim>\<open>read_csv\<close> raises first and
  the error is \<^verbatim>\<open>FileNotFoundError\<close>, not a key-lookup error.
\<close>

theorem init_unknown_species_counterexample:
  "[''co2'' \<mapsto> (''WMO-X2007'', ''ppm'')] ''ch4'' = None \<and>
   Data_init [''co2'' \<mapsto> (''WMO-X2007'', ''ppm'')] Map.empty ''MHD'' ''ch4''
     = Inl FileNotFoundError"
  by (simp add: Data_init_def read_csv_def)

text \<open>
  C10, amended. When the requested species is absent from the species table no instance
  is produced: construction fails with a key-lookup error when the measurement file of
  the site and species exists and parses, and with the file error, raised first, when
  the file is absent.
\<close>

theorem init_unknown_species:
  "species_info sp = None \<longrightarrow>
     (\<nexists>d. Data_init species_info fs st sp = Inr d) \<and>
     (\<forall>t. fs (data_path st sp) = Some t \<longrightarrow> Data_init species_info fs st sp = Inl KeyError) \<and>
     (fs (data_path st sp) = None \<longrightarrow> Data_init species_info fs st sp = Inl FileNotFoundError)"
  by (cases "fs (data_path st sp)") (simp_all add: Data_init_def read_csv_def)

theorem init_unknown_species_witness:
  "[''co2'' \<mapsto> (''WMO-X2007'', ''ppm'')] ''ch4'' = None \<and>
   [data_path ''MHD'' ''ch4'' \<mapsto> ex_table] (data_path ''MHD'' ''ch4'') = Some ex_table \<and>
   Data_init [''co2'' \<mapsto> (''WMO-X2007'', ''ppm'')] [data_path ''MHD'' ''ch4'' \<mapsto> ex_table]
     ''MHD'' ''ch4'' = Inl KeyError"
  using init_unknown_species [of "[''co2'' \<mapsto> (''WMO-X2007'', ''ppm'')]" "''ch4''"
      "[data_path ''MHD'' ''ch4'' \<mapsto> ex_table]" "''MHD''"]
  by simp

section \<open>Comparison plots\<close>

text \<open>
  C4. \<^verbatim>\<open>plot_compare\<close> raises a mismatch error whenever the two unit strings differ,
  and whenever the two scale strings differ even if the units match. When it does, nothing
  has been drawn and every instance of the store is as it was: the checks come before
  any plotting and any storing.
\<close>

theorem plot_compare_mismatch:
  "(units (h self) \<noteq> units (h other) \<longrightarrow>
      plot_compare h self dat other dat2 =
        (h, \<lparr>raised = Some (TypeError ''Units must match''), lines = [], shown = False\<rparr>)) \<and>
   (units (h self) = units (h other) \<and> scale (h self) \<noteq> scale (h other) \<longrightarrow>
      plot_compare h self dat other dat2 =
        (h, \<lparr>raised = Some (TypeError ''Scale must match''), lines = [], shown = False\<rparr>)) \<and>
   (units (h self) \<noteq> units (h other) \<or> scale (h self) \<noteq> scale (h other) \<longrightarrow>
      (\<exists>m. plot_compare h self dat other dat2 =
        (h, \<lparr>raised = Some (TypeError m), lines = [], shown = False\<rparr>)))"
  by (simp add: plot_compare_def)

theorem plot_compare_mismatch_witness:
  "units (ex_store (ex_data ''MHD'' ''ch4'' ''s'' ''ppb'') (ex_data ''TAC'' ''co2'' ''s'' ''ppm'') 0)
     \<noteq> units (ex_store (ex_data ''MHD'' ''ch4'' ''s'' ''ppb'') (ex_data ''TAC'' ''co2'' ''s'' ''ppm'') 1) \<and>
   plot_compare (ex_store (ex_data ''MHD'' ''ch4'' ''s'' ''ppb'') (ex_data ''TAC'' ''co2'' ''s'' ''ppm''))
                0 ex_weekly 1 ex_weekly =
     (ex_store (ex_data ''MHD'' ''ch4'' ''s'' ''ppb'') (ex_data ''TAC'' ''co2'' ''s'' ''ppm''),
      \<lparr>raised = Some (TypeError ''Units must match''), lines = [], shown = False\<rparr>) \<and>
   units (ex_store (ex_data ''MHD'' ''ch4'' ''a'' ''ppb'') (ex_data ''TAC'' ''ch4'' ''b'' ''ppb'') 0)
     = units (ex_store (ex_data ''MHD'' ''ch4'' ''a'' ''ppb'') (ex_data ''TAC'' ''ch4'' ''b'' ''ppb'') 1) \<and>
   scale (ex_store (ex_data ''MHD'' ''ch4'' ''a'' ''ppb'') (ex_data ''TAC'' ''ch4'' ''b'' ''ppb'') 0)
     \<noteq> scale (ex_store (ex_data ''MHD'' ''ch4'' ''a'' ''ppb'') (ex_data ''TAC'' ''ch4'' ''b'' ''ppb'') 1) \<and>
   plot_compare (ex_store (ex_data ''MHD'' ''ch4'' ''a'' ''ppb'') (ex_data ''TAC'' ''ch4'' ''b'' ''ppb''))
                0 ex_weekly 1 ex_weekly =
     (ex_store (ex_data ''MHD'' ''ch4'' ''a'' ''ppb'') (ex_data ''TAC'' ''ch4'' ''b'' ''ppb''),
      \<lparr>raised = Some (TypeError ''Scale must match''), lines = [], shown = False\<rparr>)"
  using plot_compare_mismatch [of
      "ex_store (ex_data ''MHD'' ''ch4'' ''s'' ''ppb'') (ex_data ''TAC'' ''co2'' ''s'' ''ppm'')"
      0 1 ex_weekly ex_weekly]
    plot_compare_mismatch [of
      "ex_store (ex_data ''MHD'' ''ch4'' ''a'' ''ppb'') (ex_data ''TAC'' ''ch4'' ''b'' ''ppb'')"
      0 1 ex_weekly ex_weekly]
  by (simp add: ex_data_def ex_store_def)

text \<open>
  C5. With matching units and scale the last point of each of the two series is dropped:
  the x and y sequences drawn for a series are its week numbers and its last column
  without the final row. Both series have a column to plot; when the first series has a
  row as well, the method reaches \<^verbatim>\<open>plt.show()\<close> with exactly these two lines.
\<close>

theorem plot_compare_drops_last:
  "units (h self) = units (h other) \<and> scale (h self) = scale (h other) \<and>
   columns dat \<noteq> [] \<and> columns dat2 \<noteq> [] \<longrightarrow>
     lines (snd (plot_compare h self dat other dat2)) =
       [\<lparr>label = species (h self) @ '', '' @ site (h self),
         xdata = butlast (map (period_week (gfreq dat)) (index dat)),
         ydata = butlast (snd (last (columns dat))), color = ''seagreen''\<rparr>,
        \<lparr>label = species (h other) @ '', '' @ site (h other),
         xdata = butlast (map (period_week (gfreq dat2)) (index dat2)),
         ydata = butlast (snd (last (columns dat2))), color = ''plum''\<rparr>] \<and>
     (index dat \<noteq> [] \<longrightarrow>
        raised (snd (plot_compare h self dat other dat2)) = None \<and>
        shown (snd (plot_compare h self dat other dat2)))"
  by (simp add: plot_compare_def Let_def)

theorem plot_compare_drops_last_witness:
  "units (ex_store (ex_data ''MHD'' ''ch4'' ''s'' ''ppb'') (ex_data ''TAC'' ''ch4'' ''s'' ''ppb'') 0)
     = units (ex_store (ex_data ''MHD'' ''ch4'' ''s'' ''ppb'') (ex_data ''TAC'' ''ch4'' ''s'' ''ppb'') 1) \<and>
   scale (ex_store (ex_data ''MHD'' ''ch4'' ''s'' ''ppb'') (ex_data ''TAC'' ''ch4'' ''s'' ''ppb'') 0)
     = scale (ex_store (ex_data ''MHD'' ''ch4'' ''s'' ''ppb'') (ex_data ''TAC'' ''ch4'' ''s'' ''ppb'') 1) \<and>
   columns ex_weekly \<noteq> [] \<and> index ex_weekly \<noteq> [] \<and>
   shown (snd (plot_compare
     (ex_store (ex_data ''MHD'' ''ch4'' ''s'' ''ppb'') (ex_data ''TAC'' ''ch4'' ''s'' ''ppb''))
     0 ex_weekly 1 ex_weekly)) \<and>
   lines (snd (plot_compare
     (ex_store (ex_data ''MHD'' ''ch4'' ''s'' ''ppb'') (ex_data ''TAC'' ''ch4'' ''s'' ''ppb''))
     0 ex_weekly 1 ex_weekly)) =
     [\<lparr>label = ''ch4, MHD'', xdata = [53, 1], ydata = [Some 3, Some 4], color = ''seagreen''\<rparr>,
      \<lparr>label = ''ch4, TAC'', xdata = [53, 1], ydata = [Some 3, Some 4], color = ''plum''\<rparr>]"
  using plot_compare_drops_last [of
      "ex_store (ex_data ''MHD'' ''ch4'' ''s'' ''ppb'') (ex_data ''TAC'' ''ch4'' ''s'' ''ppb'')"
      0 1 ex_weekly ex_weekly]
  by (simp add: ex_data_def ex_store_def ex_weekly_def ex_weekly_weeks)

section \<open>Stored state\<close>

text \<open>
  C6, as the specification states it, fails: \<^verbatim>\<open>plot\<close> stores its argument in the
  \<^verbatim>\<open>data\<close> attribute of the instance, and \<^verbatim>\<open>plot_compare\<close> stores its second table in
  the \<^verbatim>\<open>data2\<close> attribute of the other instance.
\<close>

theorem stored_state_counterexample:
  "data (fst (plot (ex_data ''MHD'' ''ch4'' ''s'' ''ppb'') ex_weekly))
     \<noteq> data (ex_data ''MHD'' ''ch4'' ''s'' ''ppb'') \<and>
   data2 (fst (plot_compare
       (ex_store (ex_data ''MHD'' ''ch4'' ''s'' ''ppb'') (ex_data ''TAC'' ''ch4'' ''s'' ''ppb''))
       0 ex_weekly 1 ex_weekly) 1)
     \<noteq> data2 (ex_store (ex_data ''MHD'' ''ch4'' ''s'' ''ppb'') (ex_data ''TAC'' ''ch4'' ''s'' ''ppb'') 1)"
  by (simp add: plot_def plot_compare_def ex_data_def ex_store_def Let_def)

text \<open>
  C6, amended. \<^verbatim>\<open>weekly_ave\<close> changes the instance only in its stored table, and the
  table only in its \<^verbatim>\<open>week\<close> column, which is appended when the table has none;
  \<^verbatim>\<open>baseline\<close> does the same with the \<^verbatim>\<open>day\<close> column. \<^verbatim>\<open>plot\<close> stores its argument
  in \<^verbatim>\<open>data\<close> and changes nothing else. \<^verbatim>\<open>plot_compare\<close> changes nothing when a check
  fails; once both checks pass it stores its first table in \<^verbatim>\<open>data\<close> of \<^verbatim>\<open>self\<close> and
  its second in \<^verbatim>\<open>data2\<close> of \<^verbatim>\<open>other\<close>, on one object when the two are the same, and
  changes no other attribute of any instance. Site, species, path, stored table, scale
  and units are never changed by a plotting method.
\<close>

theorem stored_state_frame:
  "(fst (weekly_ave s))\<lparr>df := df s\<rparr> = s \<and>
   time (df (fst (weekly_ave s))) = time (df s) \<and>
   filter (\<lambda>c. fst c \<noteq> ''week'') (others (df (fst (weekly_ave s))))
     = filter (\<lambda>c. fst c \<noteq> ''week'') (others (df s)) \<and>
   map_of (others (df (fst (weekly_ave s)))) ''week''
     = Some (Periods W (map week_of (time (df s)))) \<and>
   (''week'' \<notin> fst ` set (others (df s)) \<longrightarrow>
      others (df (fst (weekly_ave s)))
        = others (df s) @ [(''week'', Periods W (map week_of (time (df s))))]) \<and>
   (fst (baseline s))\<lparr>df := df s\<rparr> = s \<and>
   time (df (fst (baseline s))) = time (df s) \<and>
   filter (\<lambda>c. fst c \<noteq> ''day'') (others (df (fst (baseline s))))
     = filter (\<lambda>c. fst c \<noteq> ''day'') (others (df s)) \<and>
   map_of (others (df (fst (baseline s)))) ''day''
     = Some (Periods D (map day_of (time (df s)))) \<and>
   (''day'' \<notin> fst ` set (others (df s)) \<longrightarrow>
      others (df (fst (baseline s)))
        = others (df s) @ [(''day'', Periods D (map day_of (time (df s))))]) \<and>
   fst (plot s g) = s\<lparr>data := Some g\<rparr> \<and>
   (units (h self) \<noteq> units (h other) \<or> scale (h self) \<noteq> scale (h other) \<longrightarrow>
      fst (plot_compare h self g other g2) = h) \<and>
   (units (h self) = units (h other) \<and> scale (h self) = scale (h other) \<longrightarrow>
      (\<forall>r. data (fst (plot_compare h self g other g2) r)
              = (if r = self then Some g else data (h r)) \<and>
           data2 (fst (plot_compare h self g other g2) r)
              = (if r = other then Some g2 else data2 (h r)))) \<and>
   (\<forall>r. (fst (plot_compare h self g other g2) r)\<lparr>data := data (h r), data2 := data2 (h r)\<rparr>
          = h r)"
  by (simp add: weekly_ave_def baseline_def plot_def plot_compare_def Let_def
      filter_set_col map_of_set_col set_col_append)

theorem stored_state_frame_witness:
  "''week'' \<notin> fst ` set (others (df (ex_data ''MHD'' ''ch4'' ''s'' ''ppb''))) \<and>
   others (df (fst (weekly_ave (ex_data ''MHD'' ''ch4'' ''s'' ''ppb''))))
     = [(''mf'', Float [Some 1, None]), (''week'', Periods W [0, 0])] \<and>
   ''day'' \<notin> fst ` set (others (df (ex_data ''MHD'' ''ch4'' ''s'' ''ppb''))) \<and>
   others (df (fst (baseline (ex_data ''MHD'' ''ch4'' ''s'' ''ppb''))))
     = [(''mf'', Float [Some 1, None]), (''day'', Periods D [0, 0])] \<and>
   data (fst (plot_compare
       (ex_store (ex_data ''MHD'' ''ch4'' ''s'' ''ppb'') (ex_data ''TAC'' ''ch4'' ''s'' ''ppb''))
       0 ex_weekly 0 ex_weekly) 0) = Some ex_weekly \<and>
   data2 (fst (plot_compare
       (ex_store (ex_data ''MHD'' ''ch4'' ''s'' ''ppb'') (ex_data ''TAC'' ''ch4'' ''s'' ''ppb''))
       0 ex_weekly 0 ex_weekly) 0) = Some ex_weekly \<and>
   data2 (fst (plot_compare
       (ex_store (ex_data ''MHD'' ''ch4'' ''s'' ''ppb'') (ex_data ''TAC'' ''ch4'' ''s'' ''ppb''))
       0 ex_weekly 0 ex_weekly) 1) = None"
  using stored_state_frame [where s = "ex_data ''MHD'' ''ch4'' ''s'' ''ppb''"
      and h = "ex_store (ex_data ''MHD'' ''ch4'' ''s'' ''ppb'') (ex_data ''TAC'' ''ch4'' ''s'' ''ppb'')"
      and self = 0 and other = 0 and g = ex_weekly and ?g2.0 = ex_weekly]
  by (simp add: ex_data_def ex_store_def ex_table_def week_of_def day_of_def)

section \<open>Summary statistics\<close>

text \<open>
  C7, as the specification states it, fails on a table with an empty \<^verbatim>\<open>mf\<close> cell: the
  table has two rows and the count is one.
\<close>

theorem glimpse_count_counterexample:
  "map (\<lambda>(n, s). (n, count s)) (glimpse (ex_data ''MHD'' ''ch4'' ''s'' ''ppb'')) = [(''mf'', 1)] \<and>
   length (time (df (ex_data ''MHD'' ''ch4'' ''s'' ''ppb''))) = 2"
  by (simp add: glimpse_def describe_col_def ex_data_def ex_table_def Let_def)

text \<open>
  C7, amended. The \<^verbatim>\<open>count\<close> entry of \<^verbatim>\<open>glimpse\<close> for the \<^verbatim>\<open>mf\<close> column is the number
  of \<^verbatim>\<open>mf\<close> cells that are not NaN; it is the number of rows of the table when no
  \<^verbatim>\<open>mf\<close> cell is NaN.
\<close>

theorem glimpse_count:
  "(''mf'', Float vs) \<in> set (others (df d)) \<longrightarrow>
     (''mf'', describe_col vs) \<in> set (glimpse d) \<and>
     count (describe_col vs) = length (filter (\<lambda>v. v \<noteq> None) vs) \<and>
     (length vs = length (time (df d)) \<and> None \<notin> set vs \<longrightarrow>
        count (describe_col vs) = length (time (df d)))"
proof
  assume mf: "(''mf'', Float vs) \<in> set (others (df d))"
  then have "(''mf'', vs) \<in> set (float_cols (others (df d)))"
    by (simp add: float_cols_mem)
  then have "(\<lambda>(n, vs). (n, describe_col vs)) (''mf'', vs) \<in> set (glimpse d)"
    unfolding glimpse_def set_map by (rule imageI)
  then have 1: "(''mf'', describe_col vs) \<in> set (glimpse d)"
    by simp
  have 2: "count (describe_col vs) = length (filter (\<lambda>v. v \<noteq> None) vs)"
    by (simp add: describe_col_def Let_def length_observed)
  have "None \<notin> set vs \<Longrightarrow> filter (\<lambda>v. v \<noteq> None) vs = vs"
    by (rule filter_True) metis
  with 1 2 show "(''mf'', describe_col vs) \<in> set (glimpse d) \<and>
     count (describe_col vs) = length (filter (\<lambda>v. v \<noteq> None) vs) \<and>
     (length vs = length (time (df d)) \<and> None \<notin> set vs \<longrightarrow>
        count (describe_col vs) = length (time (df d)))"
    by simp
qed

theorem glimpse_count_witness:
  "(''mf'', Float [Some 1, Some 3])
     \<in> set (others (df ((ex_data ''MHD'' ''ch4'' ''s'' ''ppb'')\<lparr>df := ex_full_table\<rparr>))) \<and>
   length [Some 1, Some (3::rat)] = length (time ex_full_table) \<and>
   None \<notin> set [Some 1, Some (3::rat)] \<and>
   count (describe_col [Some 1, Some 3]) = 2 \<and>
   length (time ex_full_table) = 2"
  using glimpse_count [of "[Some 1, Some 3]" "(ex_data ''MHD'' ''ch4'' ''s'' ''ppb'')\<lparr>df := ex_full_table\<rparr>"]
  by (simp add: ex_full_table_def)

section \<open>Additional numeric columns\<close>

text \<open>
  C8. The specification lets a raw series hold numeric columns besides \<^verbatim>\<open>time\<close> and
  \<^verbatim>\<open>mf\<close> and has both aggregations carry them. \<^verbatim>\<open>weekly_ave\<close> does: on the table
  below it returns the column \<^verbatim>\<open>temp\<close> with its weekly mean. \<^verbatim>\<open>baseline\<close> does not:
  on the same table the assignment to the \<^verbatim>\<open>Baseline\<close> column raises \<^verbatim>\<open>ValueError\<close>
  and no table is returned.
\<close>

theorem extra_columns_baseline_raises:
  "snd (weekly_ave ((ex_data ''MHD'' ''ch4'' ''s'' ''ppb'')\<lparr>df := ex_wide_table\<rparr>)) =
     \<lparr>gfreq = W, index = [0],
      columns = [(''Weekly average mole fraction'', [Some 2]), (''temp'', [Some 15])]\<rparr> \<and>
   snd (baseline ((ex_data ''MHD'' ''ch4'' ''s'' ''ppb'')\<lparr>df := ex_wide_table\<rparr>)) = Inl ValueError"
  by (simp add: weekly_ave_def baseline_def groupby_mean_def ex_wide_table_def Let_def
      week_of_def day_of_def group_rows_def nanmean_def rename_col_def)

section \<open>Weekly averages\<close>

text \<open>
  C2. For a valid raw series, one whose \<^verbatim>\<open>mf\<close> column has a number in every row,
  \<^verbatim>\<open>weekly_ave\<close> returns exactly one row per distinct calendar week present in the
  input: its index is sorted, has no duplicate, and holds week \<open>k\<close> exactly when some
  timestamp falls between the Monday that opens week \<open>k\<close> and the next. Each cell of the
  renamed \<^verbatim>\<open>mf\<close> column is the arithmetic mean of the raw values of the rows of its
  week, of which there is at least one.
\<close>

theorem weekly_ave_means:
  "(''mf'', Float vs) \<in> set (others (df d)) \<and> length vs = length (time (df d)) \<and>
   None \<notin> set vs \<longrightarrow>
     sorted (index (snd (weekly_ave d))) \<and> distinct (index (snd (weekly_ave d))) \<and>
     (\<forall>k. k \<in> set (index (snd (weekly_ave d))) \<longleftrightarrow>
          (\<exists>t\<in>set (time (df d)). spec_in_week k t)) \<and>
     (\<forall>k\<in>set (index (snd (weekly_ave d))). spec_week_values k (time (df d)) vs \<noteq> []) \<and>
     (''Weekly average mole fraction'',
      map (\<lambda>k. Some (spec_mean (spec_week_values k (time (df d)) vs)))
          (index (snd (weekly_ave d))))
       \<in> set (columns (snd (weekly_ave d)))"
proof (intro impI, elim conjE)
  let ?ts = "time (df d)"
  let ?ks = "sort (remdups (map week_of ?ts))"
  assume mf: "(''mf'', Float vs) \<in> set (others (df d))"
    and len: "length vs = length ?ts" and none: "None \<notin> set vs"
  have ix: "index (snd (weekly_ave d)) = ?ks"
    by (rule weekly_index)
  have weeks: "k \<in> set ?ks \<longleftrightarrow> (\<exists>t\<in>set ?ts. spec_in_week k t)" for k
    by (auto simp: week_of_iff [symmetric])
  have mean: "nanmean (group_rows k (map week_of ?ts) vs)
      = Some (spec_mean (spec_week_values k ?ts vs))"
    and ne: "spec_week_values k ?ts vs \<noteq> []" if "k \<in> set ?ks" for k
    using that weekly_mean_spec [OF none len, of k] by simp_all
  have "map (\<lambda>k. nanmean (group_rows k (map week_of ?ts) vs)) ?ks
      = map (\<lambda>k. Some (spec_mean (spec_week_values k ?ts vs))) ?ks"
    using mean by (intro map_cong) auto
  with weekly_column [OF mf] have col: "(''Weekly average mole fraction'',
      map (\<lambda>k. Some (spec_mean (spec_week_values k ?ts vs))) ?ks)
       \<in> set (columns (snd (weekly_ave d)))"
    by simp
  show "sorted (index (snd (weekly_ave d))) \<and> distinct (index (snd (weekly_ave d))) \<and>
     (\<forall>k. k \<in> set (index (snd (weekly_ave d))) \<longleftrightarrow>
          (\<exists>t\<in>set (time (df d)). spec_in_week k t)) \<and>
     (\<forall>k\<in>set (index (snd (weekly_ave d))). spec_week_values k (time (df d)) vs \<noteq> []) \<and>
     (''Weekly average mole fraction'',
      map (\<lambda>k. Some (spec_mean (spec_week_values k (time (df d)) vs)))
          (index (snd (weekly_ave d))))
       \<in> set (columns (snd (weekly_ave d)))"
    unfolding ix using weeks ne col by simp
qed

text \<open>
  Daily rows from Monday 1970-01-05 to Sunday 1970-01-18: 1 to 7 in the first week, their
  doubles in the second. The weekly means are 4 and 8.
\<close>

theorem weekly_ave_means_witness:
  "(''mf'', Float [Some 1, Some 2, Some 3, Some 4, Some 5, Some 6, Some 7,
                  Some 2, Some 4, Some 6, Some 8, Some 10, Some 12, Some 14])
     \<in> set (others (df ((ex_data ''MHD'' ''ch4'' ''s'' ''ppb'')\<lparr>df := ex_doubling\<rparr>))) \<and>
   index (snd (weekly_ave ((ex_data ''MHD'' ''ch4'' ''s'' ''ppb'')\<lparr>df := ex_doubling\<rparr>))) = [1, 2] \<and>
   (\<forall>k. k \<in> set [1, 2] \<longleftrightarrow> (\<exists>t\<in>set (time ex_doubling). spec_in_week k t)) \<and>
   (''Weekly average mole fraction'',
    [Some (spec_mean [1, 2, 3, 4, 5, 6, 7]), Some (spec_mean [2, 4, 6, 8, 10, 12, 14])])
     \<in> set (columns (snd (weekly_ave ((ex_data ''MHD'' ''ch4'' ''s'' ''ppb'')\<lparr>df := ex_doubling\<rparr>)))) \<and>
   spec_mean [1, 2, 3, 4, 5, 6, 7] = 4 \<and> spec_mean [2, 4, 6, 8, 10, 12, 14] = 8"
proof -
  let ?d = "(ex_data ''MHD'' ''ch4'' ''s'' ''ppb'')\<lparr>df := ex_doubling\<rparr>"
  let ?vs = "[Some 1, Some 2, Some 3, Some 4, Some 5, Some 6, Some 7,
              Some 2, Some 4, Some 6, Some 8, Some 10, Some 12, Some (14::rat)]"
  have "(''mf'', Float ?vs) \<in> set (others (df ?d)) \<and> length ?vs = length (time (df ?d)) \<and>
      None \<notin> set ?vs"
    by (simp add: ex_doubling_def)
  with weekly_ave_means [of ?vs ?d] show ?thesis
    by (simp add: ex_doubling_weekly ex_doubling_values spec_mean_def)
qed

text \<open>
  C3. A raw series that spans exactly two consecutive weeks, the values of the second
  week being the doubles of the values of the first, gives exactly two rows in a column
  named \<^verbatim>\<open>Weekly average mole fraction\<close>: the arithmetic mean of the first week's values
  and the arithmetic mean of the second week's, which is twice the first.
\<close>

theorem weekly_ave_two_weeks:
  "others (df d) = [(''mf'', Float vs)] \<and> length vs = length (time (df d)) \<and>
   None \<notin> set vs \<and>
   (\<forall>t\<in>set (time (df d)). spec_in_week w t \<or> spec_in_week (w + 1) t) \<and>
   (\<exists>t\<in>set (time (df d)). spec_in_week w t) \<and>
   (\<exists>t\<in>set (time (df d)). spec_in_week (w + 1) t) \<and>
   spec_week_values (w + 1) (time (df d)) vs
     = map (\<lambda>x. 2 * x) (spec_week_values w (time (df d)) vs) \<longrightarrow>
     snd (weekly_ave d) =
       \<lparr>gfreq = W, index = [w, w + 1],
        columns = [(''Weekly average mole fraction'',
                    [Some (spec_mean (spec_week_values w (time (df d)) vs)),
                     Some (spec_mean (spec_week_values (w + 1) (time (df d)) vs))])]\<rparr> \<and>
     spec_mean (spec_week_values (w + 1) (time (df d)) vs)
       = 2 * spec_mean (spec_week_values w (time (df d)) vs)"
proof (intro impI, elim conjE)
  let ?ts = "time (df d)"
  let ?wk = "map week_of ?ts"
  assume cols: "others (df d) = [(''mf'', Float vs)]"
    and len: "length vs = length ?ts" and none: "None \<notin> set vs"
    and all: "\<forall>t\<in>set ?ts. spec_in_week w t \<or> spec_in_week (w + 1) t"
    and w1: "\<exists>t\<in>set ?ts. spec_in_week w t" and w2: "\<exists>t\<in>set ?ts. spec_in_week (w + 1) t"
    and dbl: "spec_week_values (w + 1) ?ts vs = map (\<lambda>x. 2 * x) (spec_week_values w ?ts vs)"
  from w1 have in1: "w \<in> week_of ` set ?ts"
    unfolding week_of_iff [symmetric] by (metis image_eqI)
  from w2 have in2: "w + 1 \<in> week_of ` set ?ts"
    unfolding week_of_iff [symmetric] by (metis image_eqI)
  note in1 in2
  moreover from all have "week_of t \<in> {w, w + 1}" if "t \<in> set ?ts" for t
    using that by (auto simp: week_of_iff [symmetric])
  ultimately have "set ?wk = {w, w + 1}"
    by auto
  then have ks: "sort (remdups ?wk) = [w, w + 1]"
    by (rule sort_remdups_pair)
  have m1: "nanmean (group_rows w ?wk vs) = Some (spec_mean (spec_week_values w ?ts vs))"
    using none len in1 by (rule weekly_mean_spec)
  have m2: "nanmean (group_rows (w + 1) ?wk vs)
      = Some (spec_mean (spec_week_values (w + 1) ?ts vs))"
    using none len in2 by (rule weekly_mean_spec)
  have "snd (weekly_ave d) =
       \<lparr>gfreq = W, index = [w, w + 1],
        columns = [(''Weekly average mole fraction'',
                    [Some (spec_mean (spec_week_values w ?ts vs)),
                     Some (spec_mean (spec_week_values (w + 1) ?ts vs))])]\<rparr>"
    by (simp add: weekly_ave_def groupby_mean_def Let_def cols ks m1 m2 rename_col_def)
  moreover have "spec_mean (spec_week_values (w + 1) ?ts vs)
      = 2 * spec_mean (spec_week_values w ?ts vs)"
    unfolding dbl by (rule spec_mean_double)
  ultimately show "snd (weekly_ave d) =
       \<lparr>gfreq = W, index = [w, w + 1],
        columns = [(''Weekly average mole fraction'',
                    [Some (spec_mean (spec_week_values w (time (df d)) vs)),
                     Some (spec_mean (spec_week_values (w + 1) (time (df d)) vs))])]\<rparr> \<and>
     spec_mean (spec_week_values (w + 1) (time (df d)) vs)
       = 2 * spec_mean (spec_week_values w (time (df d)) vs)"
    by simp
qed

theorem weekly_ave_two_weeks_witness:
  "snd (weekly_ave ((ex_data ''MHD'' ''ch4'' ''s'' ''ppb'')\<lparr>df := ex_doubling\<rparr>)) =
     \<lparr>gfreq = W, index = [1, 2],
      columns = [(''Weekly average mole fraction'',
                  [Some (spec_mean [1, 2, 3, 4, 5, 6, 7]),
                   Some (2 * spec_mean [1, 2, 3, 4, 5, 6, 7])])]\<rparr> \<and>
   spec_mean [1, 2, 3, 4, 5, 6, 7] = 4"
proof -
  let ?d = "(ex_data ''MHD'' ''ch4'' ''s'' ''ppb'')\<lparr>df := ex_doubling\<rparr>"
  let ?vs = "[Some 1, Some 2, Some 3, Some 4, Some 5, Some 6, Some 7,
              Some 2, Some 4, Some 6, Some 8, Some 10, Some 12, Some (14::rat)]"
  have 1: "others (df ?d) = [(''mf'', Float ?vs)]" "length ?vs = length (time (df ?d))"
    "None \<notin> set ?vs"
    by (simp_all add: ex_doubling_def)
  have 2: "\<forall>t\<in>set (time (df ?d)). spec_in_week 1 t \<or> spec_in_week (1 + 1) t"
    "\<exists>t\<in>set (time (df ?d)). spec_in_week 1 t"
    "\<exists>t\<in>set (time (df ?d)). spec_in_week (1 + 1) t"
    by (simp_all add: ex_doubling_def spec_in_week_def spec_week_start_def)
  have 3: "spec_week_values (1 + 1) (time (df ?d)) ?vs
      = map (\<lambda>x. 2 * x) (spec_week_values 1 (time (df ?d)) ?vs)"
    by (simp add: ex_doubling_values)
  from weekly_ave_two_weeks [of ?d ?vs 1] 1 2 3 show ?thesis
    by (simp add: ex_doubling_values spec_mean_def)
qed

section \<open>Baseline\<close>

text \<open>
  C9. When \<^verbatim>\<open>baseline\<close> returns a table, the day-grouped series has one column of
  daily means, and a row of it with an undefined value in any column, the daily mean or
  the \<^verbatim>\<open>Baseline\<close> assigned to it, is absent from the result wherever it stands. The
  \<^verbatim>\<open>Baseline\<close> of a row is undefined exactly when the row has no full window: it is one
  of the 13 leading rows, or one of the 14 daily means that end with its own is
  undefined. The result holds exactly the rows with a full window, in their order, with
  their cells, and no cell of it is undefined.
\<close>

theorem baseline_drops_undefined:
  "snd (baseline d) = Inr g \<longrightarrow>
     (\<exists>n ms. columns (day_grouped d) = [(n, ms)] \<and>
        length ms = length (index (day_grouped d)) \<and>
        (\<forall>i<length ms. ms ! i = None \<or> rolling_quantile 14 (1 / 20) ms ! i = None \<longrightarrow>
           index (day_grouped d) ! i \<notin> set (index g)) \<and>
        (\<forall>i<length ms. rolling_quantile 14 (1 / 20) ms ! i = None
           \<longleftrightarrow> \<not> spec_full_window ms i) \<and>
        index g = map ((!) (index (day_grouped d)))
                      (filter (spec_full_window ms) [0..<length ms]) \<and>
        columns g = map (\<lambda>(m, c). (m, map ((!) c) (filter (spec_full_window ms) [0..<length ms])))
                        (set_col [(n, ms)] ''Baseline'' (rolling_quantile 14 (1 / 20) ms)) \<and>
        (\<forall>(m, c)\<in>set (columns g). None \<notin> set c))"
proof
  assume res: "snd (baseline d) = Inr g"
  let ?g0 = "day_grouped d"
  from res obtain n ms where cols: "columns ?g0 = [(n, ms)]"
    by (auto simp: baseline_day_grouped split: list.splits prod.splits)
  let ?rq = "rolling_quantile 14 (1 / 20) ms"
  let ?g1 = "?g0\<lparr>columns := set_col [(n, ms)] ''Baseline'' ?rq\<rparr>"
  let ?keep = "filter (spec_full_window ms) [0..<length ms]"
  from res cols have g: "g = dropna ?g1"
    by (simp add: baseline_day_grouped)
  have len: "length ms = length (index ?g0)"
    using cols by (intro day_grouped_col_length [of n]) simp
  have rq: "?rq ! i = None \<longleftrightarrow> \<not> spec_full_window ms i" if "i < length ms" for i
    using that by (rule rolling_none_iff)
  have "complete_row ?g1 i \<longleftrightarrow> spec_full_window ms i" if "i < length ms" for i
    using rq [OF that] full_window_defined [of ms i] by (auto simp: complete_row_def)
  then have "filter (complete_row ?g1) [0..<length ms] = ?keep"
    by (intro filter_cong) auto
  then have keep: "filter (complete_row ?g1) [0..<length (index ?g0)] = ?keep"
    by (simp add: len)
  have ix: "index g = map ((!) (index ?g0)) ?keep"
    by (simp add: g dropna_index keep del: set_col.simps)
  have cs: "columns g = map (\<lambda>(m, c). (m, map ((!) c) ?keep)) (set_col [(n, ms)] ''Baseline'' ?rq)"
    by (simp add: g dropna_columns keep del: set_col.simps)
  have complete: "\<forall>(m, c)\<in>set (columns g). None \<notin> set c"
    unfolding g using dropna_complete by blast
  have absent: "index ?g0 ! i \<notin> set (index g)"
    if i: "i < length ms" and nan: "ms ! i = None \<or> ?rq ! i = None" for i
  proof -
    from nan rq [OF i] full_window_defined [of ms i] have "\<not> spec_full_window ms i"
      by auto
    then have nk: "i \<notin> set ?keep" by simp
    have 1: "distinct (index ?g0)"
      by (simp add: day_grouped_index)
    have 2: "i < length (index ?g0)" and 3: "set ?keep \<subseteq> {0..<length (index ?g0)}"
      using i by (auto simp: len)
    have "index ?g0 ! i \<in> set (map ((!) (index ?g0)) ?keep) \<longleftrightarrow> i \<in> set ?keep"
      using 1 2 3 by (rule nth_mem_distinct)
    with nk show ?thesis
      unfolding ix by blast
  qed
  from cols len absent rq ix cs complete show
    "\<exists>n ms. columns (day_grouped d) = [(n, ms)] \<and>
        length ms = length (index (day_grouped d)) \<and>
        (\<forall>i<length ms. ms ! i = None \<or> rolling_quantile 14 (1 / 20) ms ! i = None \<longrightarrow>
           index (day_grouped d) ! i \<notin> set (index g)) \<and>
        (\<forall>i<length ms. rolling_quantile 14 (1 / 20) ms ! i = None
           \<longleftrightarrow> \<not> spec_full_window ms i) \<and>
        index g = map ((!) (index (day_grouped d)))
                      (filter (spec_full_window ms) [0..<length ms]) \<and>
        columns g = map (\<lambda>(m, c). (m, map ((!) c) (filter (spec_full_window ms) [0..<length ms])))
                        (set_col [(n, ms)] ''Baseline'' (rolling_quantile 14 (1 / 20) ms)) \<and>
        (\<forall>(m, c)\<in>set (columns g). None \<notin> set c)"
    by blast
qed

text \<open>
  Thirty days with one row each; the value of the fifteenth day is missing. The
  fourteenth day is returned, the fifteenth and the 13 days after it are not, and the
  last two days are.
\<close>

theorem baseline_drops_undefined_witness:
  "snd (baseline ((ex_data ''MHD'' ''ch4'' ''s'' ''ppb'')\<lparr>df := ex_gap30\<rparr>)) = Inr ex_gap30_result \<and>
   index ex_gap30_result = [13, 28, 29] \<and>
   (\<exists>n ms. columns (day_grouped ((ex_data ''MHD'' ''ch4'' ''s'' ''ppb'')\<lparr>df := ex_gap30\<rparr>))
              = [(n, ms)] \<and>
      index ex_gap30_result =
        map ((!) (index (day_grouped ((ex_data ''MHD'' ''ch4'' ''s'' ''ppb'')\<lparr>df := ex_gap30\<rparr>))))
            (filter (spec_full_window ms) [0..<length ms]) \<and>
      (\<forall>i<length ms. ms ! i = None \<or> rolling_quantile 14 (1 / 20) ms ! i = None \<longrightarrow>
         index (day_grouped ((ex_data ''MHD'' ''ch4'' ''s'' ''ppb'')\<lparr>df := ex_gap30\<rparr>)) ! i
           \<notin> set (index ex_gap30_result)))"
proof -
  let ?d = "(ex_data ''MHD'' ''ch4'' ''s'' ''ppb'')\<lparr>df := ex_gap30\<rparr>"
  have r: "snd (baseline ?d) = Inr ex_gap30_result"
    by (rule ex_gap30_baseline)
  have ix: "index ex_gap30_result = [13, 28, 29]"
    by (simp add: ex_gap30_result_def)
  from baseline_drops_undefined [of ?d ex_gap30_result] r ix show ?thesis
    by blast
qed




end
